theory Spec2Isabelle
  imports Main "HOL-Library.AList"
begin

section \<open>Scope\<close>

text \<open>
  The quad form is a web component. Two revisions of its class \<open>QuadFormWC\<close> are
  modelled: the unified-mode revision (unnamed/part_002), which has the scheme sets and
  the nano regime, under the names of the source, and src/quad-form.js under the same
  names with the suffix \<open>_qf\<close>. Where nothing is said, a definition is the same in both.
\<close>

section \<open>JavaScript strings\<close>

text \<open>
  The component is JavaScript. A JavaScript string is modelled as a \<open>string\<close>; one
  \<open>char\<close> stands for one code unit in the range 0..255 (ASCII and Latin-1). Every constant
  of the source (scheme names, prefixes, separators) is ASCII.
\<close>

definition isWhiteSpace :: "char \<Rightarrow> bool" where
  \<comment> \<open>the code units below 256 that \<open>String.prototype.trim\<close> strips: TAB, LF, VT, FF, CR, SP, NBSP\<close>
  "isWhiteSpace c = (of_char c \<in> {9, 10, 11, 12, 13, 32, 160 :: nat})"

definition trim :: "string \<Rightarrow> string" where
  "trim s = rev (dropWhile isWhiteSpace (rev (dropWhile isWhiteSpace s)))"

definition toLowerChar :: "char \<Rightarrow> char" where
  \<comment> \<open>A-Z and the Latin-1 capitals (all of 192..222 but the multiplication sign) move up by 32\<close>
  "toLowerChar c =
     (let n = of_char c :: nat
      in if (65 \<le> n \<and> n \<le> 90) \<or> (192 \<le> n \<and> n \<le> 222 \<and> n \<noteq> 215)
         then char_of (n + 32) else c)"

definition toLowerCase :: "string \<Rightarrow> string" where
  "toLowerCase s = map toLowerChar s"

fun indexOf :: "string \<Rightarrow> char \<Rightarrow> int" where
  \<comment> \<open>\<open>s.indexOf(c)\<close>: the position of the first \<open>c\<close>, or -1\<close>
  "indexOf [] c = - 1"
| "indexOf (x # xs) c =
     (if x = c then 0 else (let i = indexOf xs c in if i < 0 then - 1 else i + 1))"

definition substring :: "string \<Rightarrow> int \<Rightarrow> int \<Rightarrow> string" where
  \<comment> \<open>\<open>s.substring(a, b)\<close>: both ends clamped to \<open>0..length\<close>, swapped when \<open>a > b\<close>\<close>
  "substring s a b =
     (let n = int (length s);
          a' = max 0 (min a n);
          b' = max 0 (min b n);
          lo = min a' b';
          hi = max a' b'
      in take (nat (hi - lo)) (drop (nat lo) s))"

definition substringFrom :: "string \<Rightarrow> int \<Rightarrow> string" where
  \<comment> \<open>\<open>s.substring(a)\<close>\<close>
  "substringFrom s a = drop (nat (max 0 a)) s"

fun startsWith :: "string \<Rightarrow> string \<Rightarrow> bool" where
  \<comment> \<open>\<open>s.startsWith(p)\<close>\<close>
  "startsWith s [] = True"
| "startsWith [] (p # ps) = False"
| "startsWith (x # xs) (p # ps) = (x = p \<and> startsWith xs ps)"

fun includes_str :: "string \<Rightarrow> string \<Rightarrow> bool" where
  \<comment> \<open>\<open>s.includes(pat)\<close>\<close>
  "includes_str [] pat = (pat = [])"
| "includes_str (x # xs) pat = (startsWith (x # xs) pat \<or> includes_str xs pat)"

definition isAsciiLetter :: "char \<Rightarrow> bool" where
  "isAsciiLetter c = (let n = of_char c :: nat in (65 \<le> n \<and> n \<le> 90) \<or> (97 \<le> n \<and> n \<le> 122))"

definition isWordChar :: "char \<Rightarrow> bool" where
  \<comment> \<open>the class \<open>\w\<close> of a regular expression without the \<open>u\<close> and \<open>i\<close> flags\<close>
  "isWordChar c =
     (let n = of_char c :: nat in isAsciiLetter c \<or> (48 \<le> n \<and> n \<le> 57) \<or> c = CHR ''_'')"

definition localNameRegex :: "string \<Rightarrow> bool" where
  \<comment> \<open>\<open>/^[a-zA-Z_][\w-]*$/.test(s)\<close>\<close>
  "localNameRegex s =
     (case s of
        [] \<Rightarrow> False
      | c # cs \<Rightarrow> (isAsciiLetter c \<or> c = CHR ''_'') \<and> list_all (\<lambda>d. isWordChar d \<or> d = CHR ''-'') cs)"

definition qnameRegex :: "string \<Rightarrow> bool" where
  \<comment> \<open>\<open>/^[a-zA-Z_][\w-]*:[a-zA-Z_][\w-]*$/.test(s)\<close>: neither name holds a colon, so the
      separator is the first colon of \<open>s\<close>\<close>
  "qnameRegex s =
     (let i = indexOf s CHR '':''
      in 0 \<le> i \<and> localNameRegex (substring s 0 i) \<and> localNameRegex (substringFrom s (i + 1)))"

section \<open>Scheme sets and the prefix table\<close>

definition MMM_URN_SCHEMES :: "string set" where
  "MMM_URN_SCHEMES = {''trpl'', ''quad'', ''snip'', ''atby'', ''mntl'', ''iii'', ''time''}"

definition STANDARD_SCHEMES :: "string set" where
  "STANDARD_SCHEMES =
     {''http'', ''https'', ''ftp'', ''ftps'', ''file'', ''data'',
      ''mailto'', ''tel'', ''sms'', ''geo'',
      ''urn'', ''isbn'', ''issn'', ''doi'', ''uuid'', ''oid'', ''lex''}"

text \<open>
  The prefix table \<open>this._prefixes\<close> is a plain object whose prototype is
  \<open>Object.prototype\<close>. It is modelled by the list of its own entries in the order of
  \<open>Object.entries\<close>, which is the order of insertion (keys that are array indices, which
  JavaScript enumerates first, are not considered). The values of own entries are
  strings. A property read \<open>this._prefixes[k]\<close> that finds no own entry goes on to
  \<open>Object.prototype\<close>, and a method call \<open>this._prefixes.hasOwnProperty(k)\<close> calls whatever
  the read of \<open>hasOwnProperty\<close> finds.
\<close>

type_synonym prefix_table = "(string \<times> string) list"

definition COMMON_PREFIXES :: prefix_table where
  "COMMON_PREFIXES =
     [(''rdf'', ''http://www.w3.org/1999/02/22-rdf-syntax-ns#''),
      (''rdfs'', ''http://www.w3.org/2000/01/rdf-schema#''),
      (''owl'', ''http://www.w3.org/2002/07/owl#''),
      (''xsd'', ''http://www.w3.org/2001/XMLSchema#''),
      (''foaf'', ''http://xmlns.com/foaf/0.1/''),
      (''dc'', ''http://purl.org/dc/elements/1.1/''),
      (''dcterms'', ''http://purl.org/dc/terms/''),
      (''schema'', ''http://schema.org/''),
      (''mntl'', ''urn:mmm:mntl:''),
      (''iii'', ''urn:mmm:iii:''),
      (''ex'', ''http://example.org/''),
      (''wp'', ''https://en.wikipedia.org/wiki/'')]"

datatype js_error = TypeError

definition objectPrototype :: "(string \<times> string) list" where
  \<comment> \<open>the members of \<open>Object.prototype\<close>, each with the text that the concatenation
      \<open>member + string\<close> turns it into: the source text of a built-in function as V8
      prints it (other engines differ in white space), and \<open>[object Object]\<close> for the
      object that \<open>__proto__\<close> reads\<close>
  "objectPrototype =
     [(''constructor'', ''function Object() { [native code] }''),
      (''__defineGetter__'', ''function __defineGetter__() { [native code] }''),
      (''__defineSetter__'', ''function __defineSetter__() { [native code] }''),
      (''hasOwnProperty'', ''function hasOwnProperty() { [native code] }''),
      (''__lookupGetter__'', ''function __lookupGetter__() { [native code] }''),
      (''__lookupSetter__'', ''function __lookupSetter__() { [native code] }''),
      (''isPrototypeOf'', ''function isPrototypeOf() { [native code] }''),
      (''propertyIsEnumerable'', ''function propertyIsEnumerable() { [native code] }''),
      (''toString'', ''function toString() { [native code] }''),
      (''valueOf'', ''function valueOf() { [native code] }''),
      (''__proto__'', ''[object Object]''),
      (''toLocaleString'', ''function toLocaleString() { [native code] }'')]"

definition getProperty :: "prefix_table \<Rightarrow> string \<Rightarrow> string option" where
  \<comment> \<open>\<open>this._prefixes[k]\<close>, as the string that \<open>this._prefixes[k] + localPart\<close> starts with:
      an own entry gives its namespace, which is truthy when it is not empty; an inherited
      member is truthy and gives its text; \<open>None\<close> is \<open>undefined\<close>\<close>
  "getProperty prefixes k =
     (case map_of prefixes k of
        Some v \<Rightarrow> Some v
      | None \<Rightarrow> map_of objectPrototype k)"

definition hasOwnProperty :: "prefix_table \<Rightarrow> string \<Rightarrow> js_error + bool" where
  \<comment> \<open>\<open>this._prefixes.hasOwnProperty(k)\<close>: an own entry named \<open>hasOwnProperty\<close> shadows the
      inherited method, and calling its string value raises \<open>TypeError\<close>\<close>
  "hasOwnProperty prefixes k =
     (if map_of prefixes ''hasOwnProperty'' \<noteq> None then Inl TypeError
      else Inr (map_of prefixes k \<noteq> None))"

definition spread :: "prefix_table \<Rightarrow> prefix_table \<Rightarrow> prefix_table" where
  \<comment> \<open>\<open>{ ...base, ...value }\<close>: a key of \<open>base\<close> keeps its place and takes the new
      namespace, a new key goes to the end\<close>
  "spread base value = fold (\<lambda>(k, v). AList.update k v) value base"

definition set_prefixes :: "prefix_table \<Rightarrow> prefix_table" where
  \<comment> \<open>the setter \<open>set prefixes(value)\<close>\<close>
  "set_prefixes value = spread COMMON_PREFIXES value"

section \<open>Field validation\<close>

definition validateField ::
    "prefix_table \<Rightarrow> string \<Rightarrow> string \<Rightarrow> string \<Rightarrow> js_error + bool" where
  \<comment> \<open>\<open>validateField(field, value, type)\<close> of the unified-mode revision (unnamed/part_002)\<close>
  "validateField prefixes field value type =
     (if value = [] \<or> trim value = [] then Inr False
      else if type = ''uri'' \<or> type = ''qname'' then
        (let colonIndex = indexOf value CHR '':''
         in if colonIndex \<le> 0 then Inr False
            else
              (let scheme = toLowerCase (substring value 0 colonIndex);
                   nss = substringFrom value (colonIndex + 1)
               in if length nss = 0 then Inr False
                  else if scheme \<in> MMM_URN_SCHEMES then Inr True
                  else if scheme \<in> STANDARD_SCHEMES then Inr True
                  else
                    (case hasOwnProperty prefixes scheme of
                       Inl e \<Rightarrow> Inl e
                     | Inr True \<Rightarrow> Inr (localNameRegex nss)
                     | Inr False \<Rightarrow> Inr False)))
      else if type = ''string'' then Inr True
      else Inr True)"

definition validateField_qf ::
    "prefix_table \<Rightarrow> string \<Rightarrow> string \<Rightarrow> string \<Rightarrow> js_error + bool" where
  \<comment> \<open>\<open>validateField(field, value, type)\<close> of src/quad-form.js\<close>
  "validateField_qf prefixes field value type =
     (if value = [] \<or> trim value = [] then Inr False
      else if type = ''qname'' then
        (if \<not> qnameRegex value then Inr False
         else (let prefix = substring value 0 (indexOf value CHR '':'')
               in hasOwnProperty prefixes prefix))
      else if type = ''uri'' then Inr (includes_str value ''://'')
      else if type = ''string'' then Inr True
      else Inr True)"

section \<open>Expansion and contraction\<close>

text \<open>
  No step of \<open>expandQName\<close> or \<open>contractUri\<close> can raise on a string argument (a test for
  emptiness, \<open>includes\<close>, \<open>indexOf\<close>, \<open>substring\<close>, \<open>startsWith\<close>, a membership in a
  \<open>Set\<close>, a property read, \<open>Object.entries\<close>, a concatenation with a string or with a
  member of \<open>Object.prototype\<close>), so both have no error result. What the table gives for
  the prefix is used when it is truthy.
\<close>

definition expandQName :: "prefix_table \<Rightarrow> string \<Rightarrow> string" where
  \<comment> \<open>\<open>expandQName(value)\<close> of the unified-mode revision (unnamed/part_002)\<close>
  "expandQName prefixes value =
     (if value = [] \<or> includes_str value ''://'' then value
      else
        (let colonIndex = indexOf value CHR '':''
         in if colonIndex = - 1 then value
            else
              (let prefix = substring value 0 colonIndex
               in if prefix \<in> MMM_URN_SCHEMES \<or> prefix \<in> STANDARD_SCHEMES then value
                  else
                    (let localPart = substringFrom value (colonIndex + 1)
                     in case getProperty prefixes prefix of
                          Some ns \<Rightarrow> if ns \<noteq> [] then ns @ localPart else value
                        | None \<Rightarrow> value))))"

definition expandQName_qf :: "prefix_table \<Rightarrow> string \<Rightarrow> string" where
  \<comment> \<open>\<open>expandQName(value)\<close> of src/quad-form.js: no scheme sets\<close>
  "expandQName_qf prefixes value =
     (if value = [] \<or> includes_str value ''://'' then value
      else
        (let colonIndex = indexOf value CHR '':''
         in if colonIndex = - 1 then value
            else
              (let prefix = substring value 0 colonIndex;
                   localPart = substringFrom value (colonIndex + 1)
               in case getProperty prefixes prefix of
                    Some ns \<Rightarrow> if ns \<noteq> [] then ns @ localPart else value
                  | None \<Rightarrow> value)))"

fun contractLoop :: "prefix_table \<Rightarrow> string \<Rightarrow> string" where
  \<comment> \<open>the loop \<open>for (const [prefix, expansion] of Object.entries(this._prefixes))\<close>: the
      first entry whose namespace starts the value wins\<close>
  "contractLoop [] value = value"
| "contractLoop ((prefix, expansion) # rest) value =
     (if startsWith value expansion
      then prefix @ '':'' @ substringFrom value (int (length expansion))
      else contractLoop rest value)"

definition contractUri :: "prefix_table \<Rightarrow> string \<Rightarrow> string" where
  \<comment> \<open>\<open>contractUri(value)\<close> of the unified-mode revision (unnamed/part_002)\<close>
  "contractUri prefixes value = contractLoop prefixes value"

definition contractUri_qf :: "prefix_table \<Rightarrow> string \<Rightarrow> string" where
  \<comment> \<open>\<open>contractUri(uri)\<close> of src/quad-form.js: only a value holding "://" is contracted\<close>
  "contractUri_qf prefixes uri =
     (if uri = [] \<or> \<not> includes_str uri ''://'' then uri else contractLoop prefixes uri)"



section \<open>Component state\<close>

text \<open>
  The state is the component's own JavaScript fields. What a handler reads from a control
  of the page (the value typed into an input) is a parameter of the handler; what it
  writes to the page (values, placeholders, colours, disabled flags) is presentation and
  is left out, and so is \<open>fieldValidity\<close>, which is written from the controls and read by
  no operation. The one attribute of the page that is kept is \<open>data-mode\<close> of the
  container, which selects the regime. A private field \<open>_x\<close> of the source is the
  record field \<open>x'\<close>. Listeners of the emitted events and the storage collaborator are
  the host's code: they are taken not to call back into the component.
\<close>

record fields =
  subject :: string
  predicate :: string
  object :: string
  graph :: string

definition getF :: "fields \<Rightarrow> string \<Rightarrow> string" where
  \<comment> \<open>\<open>obj[name]\<close> on one of the four-key objects; a missing key reads as the empty string\<close>
  "getF fs name =
     (if name = ''subject'' then subject fs
      else if name = ''predicate'' then predicate fs
      else if name = ''object'' then object fs
      else if name = ''graph'' then graph fs
      else [])"

definition setF :: "fields \<Rightarrow> string \<Rightarrow> string \<Rightarrow> fields" where
  \<comment> \<open>\<open>obj[name] = v\<close> for one of the four keys\<close>
  "setF fs name v =
     (if name = ''subject'' then fs\<lparr>subject := v\<rparr>
      else if name = ''predicate'' then fs\<lparr>predicate := v\<rparr>
      else if name = ''object'' then fs\<lparr>object := v\<rparr>
      else if name = ''graph'' then fs\<lparr>graph := v\<rparr>
      else fs)"

record tiny_fields =
  tiny_subject :: string
  tiny_predicate :: string
  tiny_object :: string

definition getT :: "tiny_fields \<Rightarrow> string \<Rightarrow> string" where
  \<comment> \<open>\<open>this.tinyFieldTypes[field]\<close>\<close>
  "getT ts name =
     (if name = ''subject'' then tiny_subject ts
      else if name = ''predicate'' then tiny_predicate ts
      else if name = ''object'' then tiny_object ts
      else [])"

definition setT :: "tiny_fields \<Rightarrow> string \<Rightarrow> string \<Rightarrow> tiny_fields" where
  \<comment> \<open>\<open>this.tinyFieldTypes[field] = v\<close>\<close>
  "setT ts name v =
     (if name = ''subject'' then ts\<lparr>tiny_subject := v\<rparr>
      else if name = ''predicate'' then ts\<lparr>tiny_predicate := v\<rparr>
      else if name = ''object'' then ts\<lparr>tiny_object := v\<rparr>
      else ts)"

record quad =
  quad_s :: string
  quad_p :: string
  quad_o :: string
  quad_g :: string
  quad_at :: string
  quad_by :: string
  quad_d :: "string option"
  quad_l :: "string option"

datatype outcome = Resolved | Rejected string

datatype event =
    Quad_submitted quad
  | Quad_error string
  | Validation_changed bool "string list"
  | Field_changed string string

datatype effect =
    Dispatch event
  | AddQuad quad
  | Console_error string
  | Console_log string

record quad_form =
  fieldValues :: fields
  fieldTypes :: fields
  objectDatatype :: string
  objectLanguage :: string
  objectUsesTextarea :: bool
  nanoMode :: bool
  tinyMode :: bool
  tinyFieldTypes :: tiny_fields
  dataMode :: string
  mmmServer' :: "(quad \<Rightarrow> outcome) option"
  prefixes' :: prefix_table
  currentIdentity' :: "string option"
  expandQNames' :: bool
  defaultGraph' :: string

definition defaultTypes :: fields where
  "defaultTypes = \<lparr>subject = ''uri'', predicate = ''qname'', object = ''uri'', graph = ''qname''\<rparr>"

text \<open>
  The state after \<open>constructor()\<close> and the first \<open>render()\<close>, which writes the regime
  \<open>full\<close> to \<open>data-mode\<close>.
\<close>

definition constructor :: quad_form where
  "constructor =
     \<lparr>fieldValues = \<lparr>subject = [], predicate = [], object = [], graph = []\<rparr>,
      fieldTypes = defaultTypes,
      objectDatatype = [],
      objectLanguage = [],
      objectUsesTextarea = False,
      nanoMode = False,
      tinyMode = False,
      tinyFieldTypes =
        \<lparr>tiny_subject = ''qname'', tiny_predicate = ''qname'', tiny_object = ''qname''\<rparr>,
      dataMode = ''full'',
      mmmServer' = None,
      prefixes' = COMMON_PREFIXES,
      currentIdentity' = None,
      expandQNames' = True,
      defaultGraph' = ''mntl:publ/scratch''\<rparr>"

definition currentMode :: "quad_form \<Rightarrow> string" where
  \<comment> \<open>\<open>container?.dataset.mode || 'full'\<close>\<close>
  "currentMode st = (if dataMode st = [] then ''full'' else dataMode st)"

definition getField :: "quad_form \<Rightarrow> string \<Rightarrow> string" where
  \<comment> \<open>\<open>this.fieldValues[name] || ''\<close>\<close>
  "getField st name = (if getF (fieldValues st) name = [] then [] else getF (fieldValues st) name)"

definition required :: "string \<Rightarrow> string \<Rightarrow> string list" where
  \<comment> \<open>\<open>if (!value) errors.push(message)\<close>\<close>
  "required value message = (if value = [] then [message] else [])"

definition validate :: "quad_form \<Rightarrow> bool \<times> effect list" where
  \<comment> \<open>\<open>validate()\<close> of the unified-mode revision: the result and the notification\<close>
  "validate st =
     (let mode = currentMode st;
          fv = fieldValues st;
          errors =
            (if mode = ''nano'' then required (object fv) ''Object is required''
             else if mode = ''tiny'' then
               required (subject fv) ''Subject is required''
               @ required (predicate fv) ''Predicate is required''
               @ required (object fv) ''Object is required''
             else
               required (subject fv) ''Subject is required''
               @ required (predicate fv) ''Predicate is required''
               @ required (object fv) ''Object is required''
               @ required (graph fv) ''Graph is required'');
          valid = (length errors = 0)
      in (valid, [Dispatch (Validation_changed valid errors)]))"

definition validate_qf :: "quad_form \<Rightarrow> bool \<times> effect list" where
  \<comment> \<open>\<open>validate()\<close> of src/quad-form.js\<close>
  "validate_qf st =
     (let fv = fieldValues st;
          errors =
            required (subject fv) ''Subject is required''
            @ required (predicate fv) ''Predicate is required''
            @ required (object fv) ''Object is required''
            @ required (graph fv) ''Graph is required'';
          valid = (length errors = 0)
      in (valid, [Dispatch (Validation_changed valid errors)]))"

definition clear :: "quad_form \<Rightarrow> quad_form \<times> effect list" where
  \<comment> \<open>\<open>clear()\<close> of the unified-mode revision\<close>
  "clear st =
     (let st' = st\<lparr>fieldValues :=
                      \<lparr>subject = [], predicate = [], object = [], graph = defaultGraph' st\<rparr>,
                    fieldTypes := defaultTypes,
                    objectDatatype := [],
                    objectLanguage := [],
                    objectUsesTextarea := False\<rparr>
      in (st', snd (validate st')))"

definition clear_qf :: "quad_form \<Rightarrow> quad_form \<times> effect list" where
  \<comment> \<open>\<open>clear()\<close> of src/quad-form.js\<close>
  "clear_qf st =
     (let st' = st\<lparr>fieldValues :=
                      \<lparr>subject = [], predicate = [], object = [], graph = defaultGraph' st\<rparr>,
                    fieldTypes := defaultTypes,
                    objectDatatype := [],
                    objectLanguage := [],
                    objectUsesTextarea := False\<rparr>
      in (st', snd (validate_qf st')))"

definition buildQuad :: "(prefix_table \<Rightarrow> string \<Rightarrow> string) \<Rightarrow> string \<Rightarrow> quad_form \<Rightarrow> quad" where
  \<comment> \<open>the object literal \<open>quad\<close> of \<open>handleSubmit\<close> with its two optional keys; \<open>expand\<close> is
      the revision's \<open>expandQName\<close> and \<open>now\<close> is \<open>new Date().toISOString()\<close>\<close>
  "buildQuad expand now st =
     (let fv = fieldValues st;
          ex = (\<lambda>v. if expandQNames' st then expand (prefixes' st) v else v)
      in \<lparr>quad_s = ex (subject fv),
          quad_p = ex (predicate fv),
          quad_o = ex (object fv),
          quad_g = ex (graph fv),
          quad_at = now,
          quad_by = (case currentIdentity' st of
                       None \<Rightarrow> ''anonymous''
                     | Some i \<Rightarrow> if i = [] then ''anonymous'' else i),
          quad_d = (if objectDatatype st \<noteq> [] \<and> objectDatatype st \<noteq> ''xsd:string''
                    then Some (objectDatatype st) else None),
          quad_l = (if objectLanguage st \<noteq> [] then Some (objectLanguage st) else None)\<rparr>)"

definition nanoDefaults :: "quad_form \<Rightarrow> quad_form" where
  \<comment> \<open>the three assignments \<open>if (!this.fieldValues.x) this.fieldValues.x = ...\<close> of the nano
      branch of \<open>handleSubmit\<close>, which \<open>toggleNanoMode\<close> makes too\<close>
  "nanoDefaults st =
     (let fv = fieldValues st;
          fv1 = (if subject fv = [] then fv\<lparr>subject := ''ex:DefaultSubject''\<rparr> else fv);
          fv2 = (if predicate fv1 = [] then fv1\<lparr>predicate := ''rdfs:comment''\<rparr> else fv1);
          fv3 = (if graph fv2 = [] then fv2\<lparr>graph := defaultGraph' st\<rparr> else fv2)
      in st\<lparr>fieldValues := fv3\<rparr>)"

definition tinyDefaults :: "quad_form \<Rightarrow> quad_form" where
  \<comment> \<open>the assignment of the tiny branch of \<open>handleSubmit\<close>\<close>
  "tinyDefaults st =
     (let fv = fieldValues st
      in st\<lparr>fieldValues := (if graph fv = [] then fv\<lparr>graph := defaultGraph' st\<rparr> else fv)\<rparr>)"

definition emitAndStore :: "quad \<Rightarrow> quad_form \<Rightarrow> effect list" where
  \<comment> \<open>the tail of \<open>handleSubmit\<close> in the unified-mode revision: the notification, then the
      awaited call of the collaborator when there is one\<close>
  "emitAndStore q st =
     Dispatch (Quad_submitted q) #
       (case mmmServer' st of
          None \<Rightarrow> []
        | Some addQuad \<Rightarrow>
            (case addQuad q of
               Resolved \<Rightarrow> [AddQuad q]
             | Rejected err \<Rightarrow> [AddQuad q, Console_error err, Dispatch (Quad_error err)]))"

definition handleSubmit :: "string \<Rightarrow> quad_form \<Rightarrow> quad_form \<times> effect list" where
  \<comment> \<open>\<open>handleSubmit(e)\<close> of the unified-mode revision (unnamed/part_002)\<close>
  "handleSubmit now st =
     (let mode = currentMode st
      in if mode = ''nano'' then
           (if object (fieldValues st) = [] \<or> trim (object (fieldValues st)) = [] then (st, [])
            else (let st1 = nanoDefaults st
                  in (st1, emitAndStore (buildQuad expandQName now st1) st1)))
         else if mode = ''tiny'' then
           (let st1 = tinyDefaults st;
                (valid, fx) = validate st1
            in if \<not> valid then (st1, fx)
               else (st1, fx @ emitAndStore (buildQuad expandQName now st1) st1))
         else
           (let (valid, fx) = validate st
            in if \<not> valid then (st, fx)
               else (st, fx @ emitAndStore (buildQuad expandQName now st) st)))"

definition handleSubmit_qf :: "string \<Rightarrow> quad_form \<Rightarrow> quad_form \<times> effect list" where
  \<comment> \<open>\<open>handleSubmit(e)\<close> of src/quad-form.js: the form is cleared after a submission that
      did not fail\<close>
  "handleSubmit_qf now st =
     (let (valid, fx) = validate_qf st
      in if \<not> valid then (st, fx)
         else
           (let objectValue = object (fieldValues st);
                fx1 = fx @ (if objectUsesTextarea st \<and> objectValue \<noteq> [] \<and> 50 < length objectValue
                            then [Console_log ''SNIP should be generated for long text:'']
                            else []);
                q = buildQuad expandQName_qf now st;
                fx2 = fx1 @ [Dispatch (Quad_submitted q)]
            in case mmmServer' st of
                 None \<Rightarrow> (let (st', fxc) = clear_qf st in (st', fx2 @ fxc))
               | Some addQuad \<Rightarrow>
                   (case addQuad q of
                      Resolved \<Rightarrow> (let (st', fxc) = clear_qf st in (st', fx2 @ [AddQuad q] @ fxc))
                    | Rejected err \<Rightarrow>
                        (st, fx2 @ [AddQuad q, Console_error err, Dispatch (Quad_error err)]))))"

definition toggleNanoMode :: "quad_form \<Rightarrow> quad_form" where
  \<comment> \<open>\<open>toggleNanoMode()\<close>: entering the nano regime; there is no way back\<close>
  "toggleNanoMode st =
     (if \<not> nanoMode st
      then nanoDefaults (st\<lparr>nanoMode := True, tinyMode := False, dataMode := ''nano''\<rparr>)
      else st)"

definition getObjectTinyType :: "quad_form \<Rightarrow> string" where
  \<comment> \<open>\<open>getObjectTinyType()\<close> of the unified-mode revision\<close>
  "getObjectTinyType st =
     (let fullType = object (fieldTypes st)
      in if fullType = ''uri'' then ''uri''
         else if fullType = ''qname'' then ''qname''
         else if fullType = ''xsd:string'' then ''string''
         else ''literal'')"

definition syncPicker :: "(string \<Rightarrow> string) \<Rightarrow> string \<Rightarrow> fields \<Rightarrow> fields" where
  \<comment> \<open>one round of the loop of \<open>toggleTinyMode\<close> that copies the value of a visible
      picker to the field\<close>
  "syncPicker pickerValue field fv =
     (if pickerValue field \<noteq> [] then setF fv field (pickerValue field) else fv)"

definition toggleTinyMode :: "(string \<Rightarrow> string) \<Rightarrow> quad_form \<Rightarrow> quad_form" where
  \<comment> \<open>\<open>toggleTinyMode()\<close> of the unified-mode revision; \<open>pickerValue field\<close> is the value
      of the picker \<open>field-select\<close> when it is visible, and empty otherwise\<close>
  "toggleTinyMode pickerValue st =
     (if \<not> tinyMode st then
        st\<lparr>tinyMode := True,
           nanoMode := False,
           fieldValues :=
             syncPicker pickerValue ''object''
               (syncPicker pickerValue ''predicate''
                 (syncPicker pickerValue ''subject'' (fieldValues st))),
           tinyFieldTypes :=
             \<lparr>tiny_subject = (if subject (fieldTypes st) = ''uri'' then ''uri'' else ''qname''),
              tiny_predicate = (if predicate (fieldTypes st) = ''uri'' then ''uri'' else ''qname''),
              tiny_object = getObjectTinyType st\<rparr>,
           dataMode := ''tiny''\<rparr>
      else st\<lparr>tinyMode := False, dataMode := ''full''\<rparr>)"

definition toggleTinyMode_qf :: "quad_form \<Rightarrow> quad_form" where
  \<comment> \<open>\<open>toggleTinyMode()\<close> of src/quad-form.js, where the regime is the flag \<open>tinyMode\<close>\<close>
  "toggleTinyMode_qf st =
     (if \<not> tinyMode st then
        st\<lparr>tinyMode := True,
           tinyFieldTypes :=
             \<lparr>tiny_subject = ''qname'', tiny_predicate = ''qname'', tiny_object = ''qname''\<rparr>\<rparr>
      else st\<lparr>tinyMode := False\<rparr>)"

definition nextTinyType :: "string \<Rightarrow> string \<Rightarrow> string" where
  \<comment> \<open>the first block of \<open>cycleTinyFieldType\<close>, the same in both revisions: the object
      cycles through \<open>qname\<close>, \<open>uri\<close>, \<open>string\<close>, the others toggle\<close>
  "nextTinyType field current =
     (if field = ''object'' then
        (if current = ''qname'' then ''uri''
         else if current = ''uri'' then ''string''
         else ''qname'')
      else (if current = ''qname'' then ''uri'' else ''qname''))"

definition cycleTinyFieldType :: "string \<Rightarrow> quad_form \<Rightarrow> quad_form" where
  \<comment> \<open>\<open>cycleTinyFieldType(field)\<close> of the unified-mode revision\<close>
  "cycleTinyFieldType field st =
     (let current = getT (tinyFieldTypes st) field;
          st1 = st\<lparr>tinyFieldTypes := setT (tinyFieldTypes st) field (nextTinyType field current)\<rparr>;
          currentValue = getF (fieldValues st1) field
      in if currentValue \<noteq> [] then
           (if getT (tinyFieldTypes st1) field = ''uri'' \<and> current = ''qname'' then
              st1\<lparr>fieldValues :=
                    setF (fieldValues st1) field (expandQName (prefixes' st1) currentValue)\<rparr>
            else if getT (tinyFieldTypes st1) field = ''qname'' \<and> current = ''uri'' then
              st1\<lparr>fieldValues :=
                    setF (fieldValues st1) field (contractUri (prefixes' st1) currentValue)\<rparr>
            else st1)
         else st1)"

definition cycleTinyFieldType_qf :: "string \<Rightarrow> quad_form \<Rightarrow> quad_form" where
  \<comment> \<open>\<open>cycleTinyFieldType(field)\<close> of src/quad-form.js\<close>
  "cycleTinyFieldType_qf field st =
     (let current = getT (tinyFieldTypes st) field;
          st1 = st\<lparr>tinyFieldTypes := setT (tinyFieldTypes st) field (nextTinyType field current)\<rparr>;
          currentValue = getF (fieldValues st1) field
      in if currentValue \<noteq> [] then
           (if getT (tinyFieldTypes st1) field = ''uri'' \<and> current = ''qname'' then
              st1\<lparr>fieldValues :=
                    setF (fieldValues st1) field (expandQName_qf (prefixes' st1) currentValue)\<rparr>
            else if getT (tinyFieldTypes st1) field = ''qname'' \<and> current = ''uri'' then
              st1\<lparr>fieldValues :=
                    setF (fieldValues st1) field (contractUri_qf (prefixes' st1) currentValue)\<rparr>
            else st1)
         else st1)"

definition shouldUseTextarea :: "string \<Rightarrow> bool" where
  "shouldUseTextarea newType =
     (newType = ''xsd:string'' \<or> newType = ''rdf:HTML'' \<or> newType = ''rdf:XMLLiteral''
      \<or> newType = ''rdf:JSON'' \<or> newType = ''mmmdt:markdown'')"

definition convertOther :: "(prefix_table \<Rightarrow> string \<Rightarrow> string) \<Rightarrow> (prefix_table \<Rightarrow> string \<Rightarrow> string)
    \<Rightarrow> string \<Rightarrow> string \<Rightarrow> string \<Rightarrow> string \<Rightarrow> quad_form \<Rightarrow> quad_form" where
  \<comment> \<open>the block \<open>if (!field.includes('object') && input)\<close> of \<open>handleTypeChange\<close>, the same
      in both revisions; \<open>inputValue\<close> is \<open>input.value\<close>\<close>
  "convertOther expand contract field oldType newType inputValue st =
     (if \<not> includes_str field ''object'' then
        (let currentValue = (if inputValue \<noteq> [] then inputValue else getF (fieldValues st) field)
         in if oldType = ''qname'' \<and> newType = ''uri'' then
              st\<lparr>fieldValues := setF (fieldValues st) field (expand (prefixes' st) currentValue)\<rparr>
            else if oldType = ''uri'' \<and> newType = ''qname'' then
              st\<lparr>fieldValues := setF (fieldValues st) field (contract (prefixes' st) currentValue)\<rparr>
            else st)
      else st)"

definition objectMetadata :: "string \<Rightarrow> quad_form \<Rightarrow> quad_form" where
  \<comment> \<open>the block \<open>if (isQNameOrUri) ... else ...\<close> of \<open>handleTypeChange\<close>, the same in both
      revisions\<close>
  "objectMetadata newType st =
     (if newType = ''qname'' \<or> newType = ''uri''
      then st\<lparr>objectDatatype := [], objectLanguage := []\<rparr>
      else st\<lparr>objectDatatype := newType\<rparr>)"

definition handleTypeChange ::
    "string \<Rightarrow> string \<Rightarrow> string \<Rightarrow> string \<Rightarrow> quad_form \<Rightarrow> quad_form \<times> effect list" where
  \<comment> \<open>\<open>handleTypeChange(e)\<close> of the unified-mode revision; \<open>field\<close> and \<open>newType\<close> are
      \<open>e.target.dataset.field\<close> and \<open>e.target.value\<close>, \<open>inputValue\<close> is the value of the control
      \<open>field-input\<close> and \<open>textareaValue\<close> that of \<open>object-textarea\<close>\<close>
  "handleTypeChange field newType inputValue textareaValue st =
     (let oldType = getF (fieldTypes st) field;
          st1 = st\<lparr>fieldTypes := setF (fieldTypes st) field newType\<rparr>;
          st2 = convertOther expandQName contractUri field oldType newType inputValue st1;
          st3 =
            (if field = ''object'' then
               (let currentValue =
                      (if inputValue \<noteq> [] then inputValue
                       else if textareaValue \<noteq> [] then textareaValue
                       else object (fieldValues st2));
                    valueToUse =
                      (if oldType = ''qname'' \<and> newType = ''uri''
                       then expandQName (prefixes' st2) currentValue
                       else if oldType = ''uri'' \<and> newType = ''qname''
                       then contractUri (prefixes' st2) currentValue
                       else currentValue)
                in objectMetadata newType
                     (st2\<lparr>fieldValues := (fieldValues st2)\<lparr>object := valueToUse\<rparr>,
                          objectUsesTextarea := shouldUseTextarea newType\<rparr>))
             else st2)
      in (st3, snd (validate st3)))"

definition handleTypeChange_qf ::
    "string \<Rightarrow> string \<Rightarrow> string \<Rightarrow> string \<Rightarrow> quad_form \<Rightarrow> quad_form \<times> effect list" where
  \<comment> \<open>\<open>handleTypeChange(e)\<close> of src/quad-form.js, which copies the value between the input
      and the textarea\<close>
  "handleTypeChange_qf field newType inputValue textareaValue st =
     (let oldType = getF (fieldTypes st) field;
          st1 = st\<lparr>fieldTypes := setF (fieldTypes st) field newType\<rparr>;
          st2 = convertOther expandQName_qf contractUri_qf field oldType newType inputValue st1;
          st3 =
            (if field = ''object'' then
               (let currentValue =
                      (if inputValue \<noteq> [] then inputValue
                       else if textareaValue \<noteq> [] then textareaValue
                       else object (fieldValues st2));
                    (iv, tv, ov) =
                      (if oldType = ''qname'' \<and> newType = ''uri''
                       then (let expanded = expandQName_qf (prefixes' st2) currentValue
                             in (expanded, expanded, expanded))
                       else if oldType = ''uri'' \<and> newType = ''qname''
                       then (let contracted = contractUri_qf (prefixes' st2) currentValue
                             in (contracted, contracted, contracted))
                       else (inputValue, textareaValue, object (fieldValues st2)));
                    ov' =
                      (if shouldUseTextarea newType
                       then (if iv \<noteq> [] then iv else ov)
                       else (if tv \<noteq> [] then tv else ov))
                in objectMetadata newType
                     (st2\<lparr>fieldValues := (fieldValues st2)\<lparr>object := ov'\<rparr>,
                          objectUsesTextarea := shouldUseTextarea newType\<rparr>))
             else st2)
      in (st3, snd (validate_qf st3)))"

definition stripAt :: "string \<Rightarrow> string" where
  \<comment> \<open>\<open>s.replace(/^@/, '')\<close>\<close>
  "stripAt v = (case v of [] \<Rightarrow> [] | c # cs \<Rightarrow> if c = CHR ''@'' then cs else v)"

definition onLanguageInput :: "string \<Rightarrow> quad_form \<Rightarrow> quad_form" where
  \<comment> \<open>the \<open>input\<close> listener of the language control \<open>language-input\<close>, the same in both
      revisions and the same as that of \<open>tiny-lang\<close> in src/quad-form.js; \<open>targetValue\<close> is
      \<open>e.target.value\<close>\<close>
  "onLanguageInput targetValue st =
     (let v = toLowerCase (stripAt targetValue)
      in if length v = 1 then st\<lparr>objectLanguage := []\<rparr> else st\<lparr>objectLanguage := v\<rparr>)"

definition onFieldInput :: "string \<Rightarrow> string \<Rightarrow> quad_form \<Rightarrow> quad_form \<times> effect list" where
  \<comment> \<open>the \<open>input\<close> listener of the control \<open>field-input\<close> in the unified-mode revision;
      the \<open>change\<close> listener of the picker \<open>field-select\<close> does the same\<close>
  "onFieldInput field targetValue st =
     (let st' = st\<lparr>fieldValues := setF (fieldValues st) field targetValue\<rparr>
      in (st', Dispatch (Field_changed field targetValue) # snd (validate st')))"

definition onFieldInput_qf :: "string \<Rightarrow> string \<Rightarrow> quad_form \<Rightarrow> quad_form \<times> effect list" where
  \<comment> \<open>the same listener in src/quad-form.js\<close>
  "onFieldInput_qf field targetValue st =
     (let st' = st\<lparr>fieldValues := setF (fieldValues st) field targetValue\<rparr>
      in (st', Dispatch (Field_changed field targetValue) # snd (validate_qf st')))"

definition set_defaultGraph :: "string \<Rightarrow> quad_form \<Rightarrow> quad_form" where
  \<comment> \<open>the setter \<open>set defaultGraph(value)\<close>\<close>
  "set_defaultGraph v st = st\<lparr>defaultGraph' := v, fieldValues := (fieldValues st)\<lparr>graph := v\<rparr>\<rparr>"

definition set_mmmServer :: "(quad \<Rightarrow> outcome) option \<Rightarrow> quad_form \<Rightarrow> quad_form" where
  \<comment> \<open>the setter \<open>set mmmServer(value)\<close>\<close>
  "set_mmmServer v st = st\<lparr>mmmServer' := v\<rparr>"

definition keeps :: "quad_form \<Rightarrow> quad_form \<Rightarrow> bool" where
  \<comment> \<open>the form is left populated: from \<open>st\<close> to \<open>st'\<close> nothing but field values has changed,
      the object is the same, and a field that had a value has kept it (an empty field
      may have received its default)\<close>
  "keeps st st' =
     (st' = st\<lparr>fieldValues := fieldValues st'\<rparr>
      \<and> object (fieldValues st') = object (fieldValues st)
      \<and> (subject (fieldValues st) \<noteq> [] \<longrightarrow> subject (fieldValues st') = subject (fieldValues st))
      \<and> (predicate (fieldValues st) \<noteq> [] \<longrightarrow>
            predicate (fieldValues st') = predicate (fieldValues st))
      \<and> (graph (fieldValues st) \<noteq> [] \<longrightarrow> graph (fieldValues st') = graph (fieldValues st)))"

section \<open>Scenarios\<close>

text \<open>
  Sequences of calls on a fresh component, used as concrete inputs below. The user fills
  subject, predicate and object of a cleared form, picks a type for the object and, where
  said, types a language tag.
\<close>

definition filled :: "string \<Rightarrow> quad_form" where
  "filled objectValue =
     fst (onFieldInput ''object'' objectValue
       (fst (onFieldInput ''predicate'' ''rdfs:comment''
         (fst (onFieldInput ''subject'' ''ex:Page'' (fst (clear constructor)))))))"

definition filled_qf :: "string \<Rightarrow> quad_form" where
  "filled_qf objectValue =
     fst (onFieldInput_qf ''object'' objectValue
       (fst (onFieldInput_qf ''predicate'' ''rdfs:comment''
         (fst (onFieldInput_qf ''subject'' ''ex:Page'' (fst (clear_qf constructor)))))))"

definition scenario_html_en :: quad_form where
  "scenario_html_en =
     onLanguageInput ''en'' (fst (handleTypeChange ''object'' ''rdf:HTML'' ''hello'' [] (filled ''hello'')))"

definition scenario_html_en_qf :: quad_form where
  "scenario_html_en_qf =
     onLanguageInput ''en''
       (fst (handleTypeChange_qf ''object'' ''rdf:HTML'' ''hello'' [] (filled_qf ''hello'')))"

definition scenario_string_en :: quad_form where
  "scenario_string_en =
     onLanguageInput ''en''
       (fst (handleTypeChange ''object'' ''xsd:string'' ''hello'' [] (filled ''hello'')))"

definition rejecting :: "quad \<Rightarrow> outcome" where
  \<comment> \<open>a storage collaborator whose \<open>addQuad\<close> rejects\<close>
  "rejecting q = Rejected ''storage offline''"

definition scenario_rejecting :: quad_form where
  "scenario_rejecting = set_mmmServer (Some rejecting) (filled ''ex:Bob'')"

definition scenario_nano_blank :: quad_form where
  \<comment> \<open>nano regime, a collaborator present, three spaces typed into the object control\<close>
  "scenario_nano_blank =
     fst (onFieldInput ''object'' ''   '' (toggleNanoMode (set_mmmServer (Some rejecting) constructor)))"

definition page_comment :: "string \<Rightarrow> string \<Rightarrow> string option \<Rightarrow> string option \<Rightarrow> quad" where
  \<comment> \<open>the record of the scenarios, up to its object, graph and tags\<close>
  "page_comment ov gv dv lv =
     \<lparr>quad_s = ''http://example.org/Page'',
      quad_p = ''http://www.w3.org/2000/01/rdf-schema#comment'',
      quad_o = ov, quad_g = gv,
      quad_at = ''2025-01-15T10:30:00.000Z'', quad_by = ''anonymous'',
      quad_d = dv, quad_l = lv\<rparr>"

section \<open>Properties of the string operations\<close>

lemma startsWith_iff: "startsWith s p \<longleftrightarrow> (\<exists>r. s = p @ r)"
  by (induction s p rule: startsWith.induct) auto

lemma includes_str_iff: "includes_str s p \<longleftrightarrow> (\<exists>a b. s = a @ p @ b)"
proof (induction s)
  case Nil
  then show ?case by auto
next
  case (Cons x xs)
  show ?case
  proof
    assume "includes_str (x # xs) p"
    then consider "startsWith (x # xs) p" | "includes_str xs p" by auto
    then show "\<exists>a b. x # xs = a @ p @ b"
    proof cases
      case 1
      then obtain r where "x # xs = p @ r" by (auto simp: startsWith_iff)
      then have "x # xs = [] @ p @ r" by simp
      then show ?thesis by blast
    next
      case 2
      then obtain a b where "xs = a @ p @ b" using Cons.IH by blast
      then have "x # xs = (x # a) @ p @ b" by simp
      then show ?thesis by blast
    qed
  next
    assume "\<exists>a b. x # xs = a @ p @ b"
    then obtain a b where ab: "x # xs = a @ p @ b" by blast
    show "includes_str (x # xs) p"
    proof (cases a)
      case Nil
      with ab have "startsWith (x # xs) p" by (auto simp: startsWith_iff)
      then show ?thesis by simp
    next
      case (Cons y ys)
      with ab have "xs = ys @ p @ b" by simp
      then have "includes_str xs p" using Cons.IH by blast
      then show ?thesis by simp
    qed
  qed
qed

lemma indexOf_notin: "c \<notin> set s \<Longrightarrow> indexOf s c = - 1"
  by (induction s) (auto simp: Let_def)

lemma indexOf_first: "c \<notin> set a \<Longrightarrow> indexOf (a @ c # b) c = int (length a)"
  by (induction a) (auto simp: Let_def)

lemma dropWhile_all: "(\<forall>x \<in> set (dropWhile P s). P x) \<longleftrightarrow> (\<forall>x \<in> set s. P x)"
  by (induction s) auto

lemma trim_empty_iff: "trim s = [] \<longleftrightarrow> (\<forall>c \<in> set s. isWhiteSpace c)"
  by (simp add: trim_def dropWhile_eq_Nil_conv dropWhile_all)

lemma colon_not_white: "\<not> isWhiteSpace CHR '':''"
  by (simp add: isWhiteSpace_def)

lemma slash_not_name_char:
  "\<not> isAsciiLetter CHR ''/''" "\<not> isWordChar CHR ''/''"
  by (simp_all add: isAsciiLetter_def isWordChar_def)

lemma slash_not_local: "CHR ''/'' \<in> set s \<Longrightarrow> \<not> localNameRegex s"
proof (cases s)
  case Nil
  then show ?thesis by (simp add: localNameRegex_def)
next
  case (Cons c cs)
  assume "CHR ''/'' \<in> set s"
  with Cons have "c = CHR ''/'' \<or> CHR ''/'' \<in> set cs" by auto
  then show ?thesis using Cons slash_not_name_char
    by (auto simp: localNameRegex_def list_all_iff)
qed

text \<open>
  The first colon of a string that contains "://": what precedes it holds no colon and
  what follows it holds a slash.
\<close>

lemma first_colon_split:
  assumes "includes_str v ''://''"
  obtains a b where "v = a @ CHR '':'' # b" and "CHR '':'' \<notin> set a" and "CHR ''/'' \<in> set b"
proof -
  from assms obtain x y where xy: "v = x @ ''://'' @ y"
    by (auto simp: includes_str_iff)
  then have "CHR '':'' \<in> set v" by simp
  then obtain a b where ab: "v = a @ CHR '':'' # b" "CHR '':'' \<notin> set a"
    by (meson split_list_first)
  from xy ab have "a @ CHR '':'' # b = x @ CHR '':'' # CHR ''/'' # CHR ''/'' # y" by simp
  then consider r where "a = x @ r" "r @ CHR '':'' # b = CHR '':'' # CHR ''/'' # CHR ''/'' # y"
    | r where "a @ r = x" "CHR '':'' # b = r @ CHR '':'' # CHR ''/'' # CHR ''/'' # y"
    by (auto simp: append_eq_append_conv2)
  then have "CHR ''/'' \<in> set b"
  proof cases
    case 1
    with ab(2) have "r = []" by (cases r) auto
    with 1 show ?thesis by auto
  next
    case 2
    then show ?thesis by (cases r) auto
  qed
  with ab show thesis using that by blast
qed

lemma substring_take: "0 \<le> i \<Longrightarrow> substring s 0 i = take (nat i) s"
  by (auto simp: substring_def Let_def min_def max_def)

section \<open>Validation of values that contain "://"\<close>

lemma hasOwnProperty_plain:
  "map_of prefixes ''hasOwnProperty'' = None \<Longrightarrow>
     hasOwnProperty prefixes k = Inr (map_of prefixes k \<noteq> None)"
  by (simp add: hasOwnProperty_def)

lemma hasOwnProperty_shadowed:
  "map_of prefixes ''hasOwnProperty'' \<noteq> None \<Longrightarrow> hasOwnProperty prefixes k = Inl TypeError"
  by (simp add: hasOwnProperty_def)

text \<open>
  What the unified-mode revision does with a value that contains "://", for every table:
  a known scheme is accepted before the table is touched; otherwise the value is
  rejected, unless the call of \<open>hasOwnProperty\<close> is reached on a table that shadows it.
\<close>

lemma validateField_complete_uri:
  assumes inc: "includes_str v ''://''" and ty: "type = ''uri'' \<or> type = ''qname''"
  shows "validateField prefixes field v type =
           (if 0 < indexOf v CHR '':'' \<and>
               toLowerCase (substring v 0 (indexOf v CHR '':''))
                 \<in> MMM_URN_SCHEMES \<union> STANDARD_SCHEMES
            then Inr True
            else if 0 < indexOf v CHR '':'' \<and> map_of prefixes ''hasOwnProperty'' \<noteq> None
            then Inl TypeError
            else Inr False)"
proof -
  from inc obtain a b
    where ab: "v = a @ CHR '':'' # b" "CHR '':'' \<notin> set a" "CHR ''/'' \<in> set b"
    by (rule first_colon_split)
  have idx: "indexOf v CHR '':'' = int (length a)" using ab by (simp add: indexOf_first)
  have nb: "trim v \<noteq> []" using ab colon_not_white by (auto simp: trim_empty_iff)
  have nss: "substringFrom v (int (length a) + 1) = b"
    using ab by (simp add: substringFrom_def nat_add_distrib)
  have ne: "b \<noteq> []" using ab by auto
  have nl: "\<not> localNameRegex b" using ab slash_not_local by blast
  show ?thesis
  proof (cases "map_of prefixes ''hasOwnProperty'' = None")
    case True
    then show ?thesis using ty nb ab(1) idx nss ne nl
      by (auto simp: validateField_def Let_def hasOwnProperty_plain split: bool.splits)
  next
    case False
    then show ?thesis using ty nb ab(1) idx nss ne nl
      by (auto simp: validateField_def Let_def hasOwnProperty_shadowed)
  qed
qed

lemma validateField_qf_complete_uri:
  assumes inc: "includes_str v ''://''" and ty: "type = ''uri'' \<or> type = ''qname''"
  shows "validateField_qf prefixes field v type = Inr (type = ''uri'')"
proof -
  from inc obtain a b
    where ab: "v = a @ CHR '':'' # b" "CHR '':'' \<notin> set a" "CHR ''/'' \<in> set b"
    by (rule first_colon_split)
  have idx: "indexOf v CHR '':'' = int (length a)" using ab by (simp add: indexOf_first)
  have nb: "trim v \<noteq> []" using ab colon_not_white by (auto simp: trim_empty_iff)
  have nss: "substringFrom v (int (length a) + 1) = b"
    using ab by (simp add: substringFrom_def nat_add_distrib)
  have "\<not> localNameRegex b" using ab slash_not_local by blast
  then have "\<not> qnameRegex v" using idx nss by (simp add: qnameRegex_def Let_def)
  then show ?thesis using ty nb inc ab(1)
    by (auto simp: validateField_qf_def)
qed

text \<open>
  Claim C1, as the code has it. A value that contains "://" is judged by its scheme alone.
  In the unified-mode revision \<open>validateField\<close> with kind \<open>uri\<close> or \<open>qname\<close> accepts it
  exactly when the text before its first colon is not empty and, in lower case, is a
  reserved or a standard scheme, whatever the prefix table holds; when it is not
  accepted it is rejected, for a prefix table that has no key named \<open>hasOwnProperty\<close>.
  In src/quad-form.js it is accepted under kind \<open>uri\<close> and rejected under kind \<open>qname\<close>.
\<close>

theorem validateField_url_by_scheme:
  assumes "includes_str v ''://''" and "type = ''uri'' \<or> type = ''qname''"
  shows "(validateField prefixes field v type = Inr True \<longleftrightarrow>
            (0 < indexOf v CHR '':'' \<and>
             toLowerCase (substring v 0 (indexOf v CHR '':''))
               \<in> MMM_URN_SCHEMES \<union> STANDARD_SCHEMES))
       \<and> (map_of prefixes ''hasOwnProperty'' = None \<longrightarrow>
            validateField prefixes field v type =
              Inr (0 < indexOf v CHR '':'' \<and>
                   toLowerCase (substring v 0 (indexOf v CHR '':''))
                     \<in> MMM_URN_SCHEMES \<union> STANDARD_SCHEMES))
       \<and> validateField_qf prefixes field v type = Inr (type = ''uri'')"
  using validateField_complete_uri[OF assms, of prefixes field]
    validateField_qf_complete_uri[OF assms, of prefixes field]
  by (simp split: if_splits)

theorem validateField_url_by_scheme_witness:
  "includes_str ''https://example.org/Alice'' ''://''
   \<and> map_of COMMON_PREFIXES ''hasOwnProperty'' = None
   \<and> validateField COMMON_PREFIXES ''subject'' ''https://example.org/Alice'' ''uri'' = Inr True
   \<and> validateField_qf COMMON_PREFIXES ''subject'' ''https://example.org/Alice'' ''uri'' = Inr True"
proof -
  have h: "includes_str ''https://example.org/Alice'' ''://''" by simp
  have t: "map_of COMMON_PREFIXES ''hasOwnProperty'' = None"
    by (simp add: COMMON_PREFIXES_def)
  have "(0::int) < indexOf ''https://example.org/Alice'' CHR '':''
        \<and> toLowerCase (substring ''https://example.org/Alice'' 0
             (indexOf ''https://example.org/Alice'' CHR '':''))
           \<in> MMM_URN_SCHEMES \<union> STANDARD_SCHEMES"
    by (simp add: substring_def toLowerCase_def toLowerChar_def STANDARD_SCHEMES_def)
  with validateField_url_by_scheme[OF h, of "''uri''" COMMON_PREFIXES "''subject''"] h t
  show ?thesis by simp
qed

text \<open>
  A value with "://" whose scheme is neither reserved nor standard is rejected by both
  revisions under kind \<open>qname\<close>, and by the unified-mode revision under kind \<open>uri\<close> too.
\<close>

theorem validateField_url_unknown_scheme_rejected:
  "includes_str ''foo://bar'' ''://''
   \<and> validateField COMMON_PREFIXES ''subject'' ''foo://bar'' ''uri'' = Inr False
   \<and> validateField COMMON_PREFIXES ''subject'' ''foo://bar'' ''qname'' = Inr False
   \<and> validateField_qf COMMON_PREFIXES ''subject'' ''foo://bar'' ''qname'' = Inr False"
  by (simp add: validateField_def validateField_qf_def trim_def isWhiteSpace_def
      toLowerCase_def toLowerChar_def substring_def substringFrom_def
      MMM_URN_SCHEMES_def STANDARD_SCHEMES_def hasOwnProperty_def COMMON_PREFIXES_def
      qnameRegex_def localNameRegex_def isAsciiLetter_def isWordChar_def Let_def)

section \<open>Letter case in the prefix lookup\<close>

lemma scheme_no_colon:
  "scheme \<in> MMM_URN_SCHEMES \<union> STANDARD_SCHEMES \<Longrightarrow> CHR '':'' \<notin> set scheme"
  by (auto simp: MMM_URN_SCHEMES_def STANDARD_SCHEMES_def)

lemma split_at_first_colon:
  assumes "CHR '':'' \<notin> set p"
  shows "indexOf (p @ CHR '':'' # x) CHR '':'' = int (length p)"
    and "substring (p @ CHR '':'' # x) 0 (int (length p)) = p"
    and "substringFrom (p @ CHR '':'' # x) (int (length p) + 1) = x"
  using assms by (simp_all add: indexOf_first substring_take substringFrom_def nat_add_distrib)

lemma colon_value_not_blank: "trim (scheme @ CHR '':'' # rest) \<noteq> []"
  using colon_not_white by (auto simp: trim_empty_iff)

text \<open>
  In the unified-mode revision the scheme sets are tested on the lower-cased scheme, and
  so is the prefix table: for a scheme outside the sets and a table that does not shadow
  \<open>hasOwnProperty\<close>, the value is valid exactly when the lower-cased scheme is a key of the
  table and the rest is a local name.
\<close>

lemma validateField_scheme_any_case:
  assumes "CHR '':'' \<notin> set scheme" and "rest \<noteq> []"
    and "toLowerCase scheme \<in> MMM_URN_SCHEMES \<union> STANDARD_SCHEMES"
    and "type = ''uri'' \<or> type = ''qname''"
  shows "validateField prefixes field (scheme @ '':'' @ rest) type = Inr True"
proof -
  have "[] \<notin> MMM_URN_SCHEMES \<union> STANDARD_SCHEMES"
    by (simp add: MMM_URN_SCHEMES_def STANDARD_SCHEMES_def)
  with assms(3) have "scheme \<noteq> []" by (auto simp: toLowerCase_def)
  then show ?thesis
    using assms colon_value_not_blank[of scheme rest]
    by (auto simp: validateField_def Let_def split_at_first_colon)
qed

lemma validateField_prefixed_name:
  assumes "CHR '':'' \<notin> set scheme" and "scheme \<noteq> []"
    and "toLowerCase scheme \<notin> MMM_URN_SCHEMES \<union> STANDARD_SCHEMES"
    and "type = ''uri'' \<or> type = ''qname''"
    and "map_of prefixes ''hasOwnProperty'' = None"
  shows "validateField prefixes field (scheme @ '':'' @ rest) type =
           Inr (map_of prefixes (toLowerCase scheme) \<noteq> None \<and> localNameRegex rest)"
proof -
  have "rest = [] \<Longrightarrow> \<not> localNameRegex rest" by (simp add: localNameRegex_def)
  then show ?thesis
    using assms colon_value_not_blank[of scheme rest]
    by (auto simp: validateField_def Let_def split_at_first_colon hasOwnProperty_plain
        split: bool.splits)
qed

text \<open>
  Claim C2 on the code. \<open>validateField\<close> of the unified-mode revision looks the prefix up
  in lower case: \<open>FOAF:knows\<close> is accepted though only \<open>foaf\<close> is registered (and
  \<open>expandQName\<close>, which looks the prefix up as written, leaves it alone), and \<open>My:Alice\<close>
  is rejected though \<open>My\<close> is registered (and \<open>expandQName\<close> expands it).
\<close>

theorem validateField_prefix_lookup_lowercased:
  "map_of COMMON_PREFIXES ''FOAF'' = None
   \<and> validateField COMMON_PREFIXES ''predicate'' ''FOAF:knows'' ''qname'' = Inr True
   \<and> expandQName COMMON_PREFIXES ''FOAF:knows'' = ''FOAF:knows''
   \<and> map_of (set_prefixes [(''My'', ''http://example.com/my#'')]) ''My''
       = Some ''http://example.com/my#''
   \<and> validateField (set_prefixes [(''My'', ''http://example.com/my#'')])
          ''subject'' ''My:Alice'' ''qname'' = Inr False
   \<and> expandQName (set_prefixes [(''My'', ''http://example.com/my#'')]) ''My:Alice''
       = ''http://example.com/my#Alice''"
  by code_simp

section \<open>Expansion\<close>


lemma scheme_length:
  "scheme \<in> MMM_URN_SCHEMES \<union> STANDARD_SCHEMES \<Longrightarrow> length scheme \<le> 6"
  by (auto simp: MMM_URN_SCHEMES_def STANDARD_SCHEMES_def)

lemma inherited_length: "map_of objectPrototype k = Some t \<Longrightarrow> 7 \<le> length k"
  by (auto simp: objectPrototype_def split: if_splits)

lemma scheme_not_inherited:
  "scheme \<in> MMM_URN_SCHEMES \<union> STANDARD_SCHEMES \<Longrightarrow> map_of objectPrototype scheme = None"
  using scheme_length[of scheme] inherited_length[of scheme]
  by (cases "map_of objectPrototype scheme") auto

lemma expandQName_qf_unregistered_scheme:
  assumes "scheme \<in> MMM_URN_SCHEMES \<union> STANDARD_SCHEMES" and "map_of prefixes scheme = None"
  shows "expandQName_qf prefixes (scheme @ '':'' @ x) = scheme @ '':'' @ x"
proof -
  have "CHR '':'' \<notin> set scheme" using assms(1) by (rule scheme_no_colon)
  moreover have "getProperty prefixes scheme = None"
    using assms scheme_not_inherited by (simp add: getProperty_def)
  ultimately show ?thesis
    by (auto simp: expandQName_qf_def Let_def split_at_first_colon)
qed

text \<open>
  Claim C3, as the code has it. In the unified-mode revision a reserved or standard scheme
  followed by a colon and a non-empty rest is a fixed point of \<open>expandQName\<close>, whatever
  the prefix table holds, so also when the scheme is registered as a prefix. In
  src/quad-form.js, which has no scheme sets, it is a fixed point when the scheme is not
  registered as a prefix.
\<close>

theorem expandQName_scheme_fixed_point:
  assumes "scheme \<in> MMM_URN_SCHEMES \<union> STANDARD_SCHEMES" and "x \<noteq> []"
  shows "expandQName prefixes (scheme @ '':'' @ x) = scheme @ '':'' @ x
       \<and> (map_of prefixes scheme = None \<longrightarrow>
            expandQName_qf prefixes (scheme @ '':'' @ x) = scheme @ '':'' @ x)"
proof -
  have "CHR '':'' \<notin> set scheme" using assms(1) by (rule scheme_no_colon)
  then have "expandQName prefixes (scheme @ '':'' @ x) = scheme @ '':'' @ x"
    using assms(1) by (auto simp: expandQName_def Let_def split_at_first_colon)
  then show ?thesis using expandQName_qf_unregistered_scheme[OF assms(1)] by blast
qed

theorem expandQName_scheme_fixed_point_witness:
  "''mntl'' \<in> MMM_URN_SCHEMES \<union> STANDARD_SCHEMES \<and> ''publ/scratch'' \<noteq> []
   \<and> map_of COMMON_PREFIXES ''mntl'' = Some ''urn:mmm:mntl:''
   \<and> expandQName COMMON_PREFIXES ''mntl:publ/scratch'' = ''mntl:publ/scratch''
   \<and> ''quad'' \<in> MMM_URN_SCHEMES \<union> STANDARD_SCHEMES \<and> ''abc'' \<noteq> []
   \<and> map_of COMMON_PREFIXES ''quad'' = None
   \<and> expandQName COMMON_PREFIXES ''quad:abc'' = ''quad:abc''
   \<and> expandQName_qf COMMON_PREFIXES ''quad:abc'' = ''quad:abc''"
proof -
  have h: "''mntl'' \<in> MMM_URN_SCHEMES \<union> STANDARD_SCHEMES" "''publ/scratch'' \<noteq> []"
    by (simp_all add: MMM_URN_SCHEMES_def)
  have k: "''quad'' \<in> MMM_URN_SCHEMES \<union> STANDARD_SCHEMES" "''abc'' \<noteq> []"
    by (simp_all add: MMM_URN_SCHEMES_def)
  have m: "map_of COMMON_PREFIXES ''mntl'' = Some ''urn:mmm:mntl:''"
      "map_of COMMON_PREFIXES ''quad'' = None"
    by (simp_all add: COMMON_PREFIXES_def)
  from expandQName_scheme_fixed_point[OF h, of COMMON_PREFIXES]
    expandQName_scheme_fixed_point[OF k, of COMMON_PREFIXES] h k m
  show ?thesis by simp
qed

text \<open>
  In src/quad-form.js the reserved scheme \<open>mntl\<close>, a default prefix, is expanded like any
  other prefix.
\<close>

theorem expandQName_qf_expands_reserved:
  "''mntl'' \<in> MMM_URN_SCHEMES \<union> STANDARD_SCHEMES \<and> ''publ/scratch'' \<noteq> []
   \<and> expandQName_qf COMMON_PREFIXES (''mntl'' @ '':'' @ ''publ/scratch'')
       = ''urn:mmm:mntl:publ/scratch''
   \<and> ''urn:mmm:mntl:publ/scratch'' \<noteq> ''mntl'' @ '':'' @ ''publ/scratch''"
  by code_simp










text \<open>
  Where expansion does leave its input alone, in both revisions: a value that contains
  "://", a value without a colon, and a value whose text before the first colon (empty
  or not) is neither a key of the prefix table nor a member of \<open>Object.prototype\<close>.
\<close>

lemma expandQName_unchanged:
  "(includes_str v ''://'' \<longrightarrow> expandQName prefixes v = v \<and> expandQName_qf prefixes v = v)
   \<and> (CHR '':'' \<notin> set v \<longrightarrow> expandQName prefixes v = v \<and> expandQName_qf prefixes v = v)
   \<and> (getProperty prefixes (substring v 0 (indexOf v CHR '':'')) = None \<longrightarrow>
        expandQName prefixes v = v \<and> expandQName_qf prefixes v = v)"
  by (simp add: expandQName_def expandQName_qf_def indexOf_notin Let_def)

text \<open>
  Claim C5 on the code. The prefix is read from the table through the prototype chain:
  \<open>constructor\<close> is not a registered prefix (and \<open>hasOwnProperty\<close>, which
  \<open>validateField\<close> asks, says so), yet both revisions of \<open>expandQName\<close> replace
  \<open>constructor:\<close> by the text of the inherited member instead of returning the input.
\<close>

theorem expandQName_inherited_name:
  "map_of COMMON_PREFIXES ''constructor'' = None
   \<and> hasOwnProperty COMMON_PREFIXES ''constructor'' = Inr False
   \<and> expandQName COMMON_PREFIXES ''constructor:Alice''
       = ''function Object() { [native code] }Alice''
   \<and> expandQName_qf COMMON_PREFIXES ''constructor:Alice''
       = ''function Object() { [native code] }Alice''
   \<and> ''function Object() { [native code] }Alice'' \<noteq> ''constructor:Alice''"
  by code_simp

section \<open>Round trip\<close>









section \<open>Submission\<close>

lemma validate_no_submit: "Dispatch (Quad_submitted q) \<notin> set (snd (validate st))"
  by (simp add: validate_def Let_def)

lemma validate_qf_no_submit: "Dispatch (Quad_submitted q) \<notin> set (snd (validate_qf st))"
  by (simp add: validate_qf_def Let_def)

lemma validate_no_store: "AddQuad q \<notin> set (snd (validate st))"
  by (simp add: validate_def Let_def)

lemma validate_qf_no_store: "AddQuad q \<notin> set (snd (validate_qf st))"
  by (simp add: validate_qf_def Let_def)

lemma clear_qf_no_submit: "Dispatch (Quad_submitted q) \<notin> set (snd (clear_qf st))"
  by (simp add: clear_qf_def Let_def validate_qf_no_submit)

lemma clear_qf_no_store: "AddQuad q \<notin> set (snd (clear_qf st))"
  by (simp add: clear_qf_def Let_def validate_qf_no_store)

lemma emitAndStore_submitted:
  assumes "Dispatch (Quad_submitted q) \<in> set (emitAndStore q' st)"
  shows "q = q'"
proof (cases "mmmServer' st")
  case None
  with assms show ?thesis by (simp add: emitAndStore_def)
next
  case (Some f)
  with assms show ?thesis by (cases "f q'") (simp_all add: emitAndStore_def)
qed

lemma emitAndStore_store:
  assumes "AddQuad q \<in> set (emitAndStore q' st)"
  shows "q = q'"
proof (cases "mmmServer' st")
  case None
  with assms show ?thesis by (simp add: emitAndStore_def)
next
  case (Some f)
  with assms show ?thesis by (cases "f q'") (simp_all add: emitAndStore_def)
qed

lemma emitAndStore_rejected:
  assumes "mmmServer' st = Some addQuad" and "addQuad q = Rejected err"
  shows "emitAndStore q st =
           [Dispatch (Quad_submitted q), AddQuad q, Console_error err, Dispatch (Quad_error err)]"
  using assms by (simp add: emitAndStore_def)

lemma nanoDefaults_tags [simp]:
  "objectDatatype (nanoDefaults st) = objectDatatype st"
  "objectLanguage (nanoDefaults st) = objectLanguage st"
  "mmmServer' (nanoDefaults st) = mmmServer' st"
  by (simp_all add: nanoDefaults_def Let_def)

lemma tinyDefaults_tags [simp]:
  "objectDatatype (tinyDefaults st) = objectDatatype st"
  "objectLanguage (tinyDefaults st) = objectLanguage st"
  "mmmServer' (tinyDefaults st) = mmmServer' st"
  by (simp_all add: tinyDefaults_def Let_def)

lemma buildQuad_tags:
  "quad_d (buildQuad ex now st) =
     (if objectDatatype st = [] \<or> objectDatatype st = ''xsd:string'' then None
      else Some (objectDatatype st))"
  "quad_l (buildQuad ex now st) =
     (if objectLanguage st = [] then None else Some (objectLanguage st))"
  by (simp_all add: buildQuad_def Let_def)

lemma mode_cases:
  obtains (nano) "currentMode st = ''nano''"
  | (tiny) "currentMode st \<noteq> ''nano''" and "currentMode st = ''tiny''"
  | (full) "currentMode st \<noteq> ''nano''" and "currentMode st \<noteq> ''tiny''"
  by blast

lemma handleSubmit_submitted:
  assumes "Dispatch (Quad_submitted q) \<in> set (snd (handleSubmit now st))"
  shows "\<exists>st1. q = buildQuad expandQName now st1
           \<and> objectDatatype st1 = objectDatatype st \<and> objectLanguage st1 = objectLanguage st"
proof (cases st rule: mode_cases)
  case nano
  with assms have "q = buildQuad expandQName now (nanoDefaults st)"
    by (auto simp: handleSubmit_def Let_def split: if_splits dest: emitAndStore_submitted)
  then show ?thesis by (intro exI[of _ "nanoDefaults st"]) simp
next
  case tiny
  with assms validate_no_submit[of q "tinyDefaults st"]
  have "q = buildQuad expandQName now (tinyDefaults st)"
    by (auto simp: handleSubmit_def Let_def split: if_splits prod.splits
        dest: emitAndStore_submitted)
  then show ?thesis by (intro exI[of _ "tinyDefaults st"]) simp
next
  case full
  with assms validate_no_submit[of q st]
  have "q = buildQuad expandQName now st"
    by (auto simp: handleSubmit_def Let_def split: if_splits prod.splits
        dest: emitAndStore_submitted)
  then show ?thesis by blast
qed

lemma handleSubmit_qf_submitted:
  assumes "Dispatch (Quad_submitted q) \<in> set (snd (handleSubmit_qf now st))"
  shows "q = buildQuad expandQName_qf now st"
  using assms validate_qf_no_submit[of q st] clear_qf_no_submit[of q st]
  by (auto simp: handleSubmit_qf_def Let_def
      split: if_splits prod.splits option.splits outcome.splits)

lemma handleTypeChange_reference_tags:
  assumes "t = ''qname'' \<or> t = ''uri''"
  shows "objectDatatype (fst (handleTypeChange ''object'' t iv tv st)) = []"
    and "objectLanguage (fst (handleTypeChange ''object'' t iv tv st)) = []"
    and "objectDatatype (fst (handleTypeChange_qf ''object'' t iv tv st)) = []"
    and "objectLanguage (fst (handleTypeChange_qf ''object'' t iv tv st)) = []"
  using assms
  by (auto simp: handleTypeChange_def handleTypeChange_qf_def objectMetadata_def Let_def
      split: prod.splits)

lemma handleTypeChange_textarea_tags:
  assumes "shouldUseTextarea u"
  shows "objectDatatype (fst (handleTypeChange ''object'' u iv tv st)) = u"
    and "objectLanguage (fst (handleTypeChange ''object'' u iv tv st)) = objectLanguage st"
    and "objectDatatype (fst (handleTypeChange_qf ''object'' u iv tv st)) = u"
    and "objectLanguage (fst (handleTypeChange_qf ''object'' u iv tv st)) = objectLanguage st"
proof -
  from assms have "u \<noteq> ''qname''" and "u \<noteq> ''uri''"
    by (auto simp: shouldUseTextarea_def)
  then show "objectDatatype (fst (handleTypeChange ''object'' u iv tv st)) = u"
    and "objectLanguage (fst (handleTypeChange ''object'' u iv tv st)) = objectLanguage st"
    and "objectDatatype (fst (handleTypeChange_qf ''object'' u iv tv st)) = u"
    and "objectLanguage (fst (handleTypeChange_qf ''object'' u iv tv st)) = objectLanguage st"
    by (simp_all add: handleTypeChange_def handleTypeChange_qf_def objectMetadata_def
        convertOther_def Let_def split: prod.splits)
qed

lemma onLanguageInput_tags:
  "objectDatatype (onLanguageInput lang st) = objectDatatype st"
  "objectLanguage (onLanguageInput lang st) =
     (if length (toLowerCase (stripAt lang)) = 1 then [] else toLowerCase (stripAt lang))"
  by (simp_all add: onLanguageInput_def Let_def)

text \<open>
  In the tiny regime the type of a field is cycled by \<open>cycleTinyFieldType\<close>, which, like
  entering and leaving the regime, touches neither tag of the object.
\<close>

lemma tiny_regime_keeps_tags:
  "objectDatatype (cycleTinyFieldType field st) = objectDatatype st"
  "objectLanguage (cycleTinyFieldType field st) = objectLanguage st"
  "objectDatatype (cycleTinyFieldType_qf field st) = objectDatatype st"
  "objectLanguage (cycleTinyFieldType_qf field st) = objectLanguage st"
  "objectDatatype (toggleTinyMode pickerValue st) = objectDatatype st"
  "objectLanguage (toggleTinyMode pickerValue st) = objectLanguage st"
  "objectDatatype (toggleTinyMode_qf st) = objectDatatype st"
  "objectLanguage (toggleTinyMode_qf st) = objectLanguage st"
  by (simp_all add: cycleTinyFieldType_def cycleTinyFieldType_qf_def toggleTinyMode_def
      toggleTinyMode_qf_def Let_def)

text \<open>
  Claim C7, as the code has it, for the type selector and the language control of the
  full form, in both revisions. Choosing \<open>qname\<close> or \<open>uri\<close> as the type of the object
  clears the datatype tag and the language tag. Choosing a type that is edited in the
  textarea (\<open>xsd:string\<close>, \<open>rdf:HTML\<close>, \<open>rdf:XMLLiteral\<close>, \<open>rdf:JSON\<close>, \<open>mmmdt:markdown\<close>), for
  which the language control is enabled, sets the datatype tag and keeps the language
  tag, and a language typed while such a type is chosen is stored beside the datatype
  tag. When the datatype tag is empty or one of these types, a submitted record carries
  \<open>l\<close> exactly when the language tag is set, and \<open>d\<close> exactly when the datatype tag is one
  of these types other than \<open>xsd:string\<close>.
\<close>

theorem object_tags_in_record:
  "((t = ''qname'' \<or> t = ''uri'') \<longrightarrow>
      objectDatatype (fst (handleTypeChange ''object'' t iv tv st)) = []
      \<and> objectLanguage (fst (handleTypeChange ''object'' t iv tv st)) = []
      \<and> objectDatatype (fst (handleTypeChange_qf ''object'' t iv tv st)) = []
      \<and> objectLanguage (fst (handleTypeChange_qf ''object'' t iv tv st)) = [])
   \<and> (shouldUseTextarea u \<longrightarrow>
      objectDatatype (fst (handleTypeChange ''object'' u iv tv st)) = u
      \<and> objectLanguage (fst (handleTypeChange ''object'' u iv tv st)) = objectLanguage st
      \<and> objectDatatype (fst (handleTypeChange_qf ''object'' u iv tv st)) = u
      \<and> objectLanguage (fst (handleTypeChange_qf ''object'' u iv tv st)) = objectLanguage st)
   \<and> (shouldUseTextarea (objectDatatype st) \<longrightarrow>
      objectDatatype (onLanguageInput lang st) = objectDatatype st
      \<and> objectLanguage (onLanguageInput lang st) =
          (if length (toLowerCase (stripAt lang)) = 1 then [] else toLowerCase (stripAt lang)))
   \<and> ((Dispatch (Quad_submitted q) \<in> set (snd (handleSubmit now st))
        \<or> Dispatch (Quad_submitted q) \<in> set (snd (handleSubmit_qf now st)))
       \<and> (objectDatatype st = [] \<or> shouldUseTextarea (objectDatatype st)) \<longrightarrow>
        quad_d q = (if objectDatatype st = [] \<or> objectDatatype st = ''xsd:string'' then None
                    else Some (objectDatatype st))
        \<and> quad_l q = (if objectLanguage st = [] then None else Some (objectLanguage st)))"
proof (intro conjI impI)
  assume "(Dispatch (Quad_submitted q) \<in> set (snd (handleSubmit now st))
        \<or> Dispatch (Quad_submitted q) \<in> set (snd (handleSubmit_qf now st)))
       \<and> (objectDatatype st = [] \<or> shouldUseTextarea (objectDatatype st))"
  then obtain ex st1 where q: "q = buildQuad ex now st1"
      and "objectDatatype st1 = objectDatatype st" "objectLanguage st1 = objectLanguage st"
    using handleSubmit_submitted[of q now st] handleSubmit_qf_submitted[of q now st] by blast
  then show "quad_d q = (if objectDatatype st = [] \<or> objectDatatype st = ''xsd:string''
                        then None else Some (objectDatatype st))"
    and "quad_l q = (if objectLanguage st = [] then None else Some (objectLanguage st))"
    by (simp_all only: buildQuad_tags)
qed (simp_all add: handleTypeChange_reference_tags handleTypeChange_textarea_tags
      onLanguageInput_tags)

theorem object_tags_in_record_witness:
  "objectDatatype (fst (handleTypeChange ''object'' ''uri'' ''hello'' [] scenario_string_en)) = []
   \<and> objectLanguage (fst (handleTypeChange ''object'' ''uri'' ''hello'' [] scenario_string_en)) = []
   \<and> shouldUseTextarea ''rdf:HTML''
   \<and> objectDatatype (fst (handleTypeChange ''object'' ''rdf:HTML'' ''hello'' [] scenario_string_en))
       = ''rdf:HTML''
   \<and> objectLanguage (fst (handleTypeChange ''object'' ''rdf:HTML'' ''hello'' [] scenario_string_en))
       = ''en''
   \<and> objectDatatype scenario_string_en = ''xsd:string''
   \<and> objectLanguage scenario_string_en = ''en''
   \<and> shouldUseTextarea (objectDatatype scenario_string_en)
   \<and> objectDatatype (onLanguageInput ''@FR'' scenario_string_en) = ''xsd:string''
   \<and> objectLanguage (onLanguageInput ''@FR'' scenario_string_en) = ''fr''
   \<and> Dispatch (Quad_submitted (page_comment ''hello'' ''mntl:publ/scratch'' None (Some ''en'')))
        \<in> set (snd (handleSubmit ''2025-01-15T10:30:00.000Z'' scenario_string_en))
   \<and> quad_d (page_comment ''hello'' ''mntl:publ/scratch'' None (Some ''en'')) = None
   \<and> quad_l (page_comment ''hello'' ''mntl:publ/scratch'' None (Some ''en'')) = Some ''en''"
proof -
  have h: "Dispatch (Quad_submitted (page_comment ''hello'' ''mntl:publ/scratch'' None (Some ''en'')))
        \<in> set (snd (handleSubmit ''2025-01-15T10:30:00.000Z'' scenario_string_en))"
    by code_simp
  have s: "objectDatatype scenario_string_en = ''xsd:string''"
      "objectLanguage scenario_string_en = ''en''"
    by code_simp+
  have a: "shouldUseTextarea ''rdf:HTML''" "shouldUseTextarea ''xsd:string''"
    by (simp_all add: shouldUseTextarea_def)
  have l: "toLowerCase (stripAt ''@FR'') = ''fr''" by code_simp
  from h s a l
    object_tags_in_record[of "''uri''" "''hello''" "[]" scenario_string_en "''rdf:HTML''" "''@FR''"
      "page_comment ''hello'' ''mntl:publ/scratch'' None (Some ''en'')"
      "''2025-01-15T10:30:00.000Z''"]
  show ?thesis by simp
qed

text \<open>
  The user picks \<open>rdf:HTML\<close> for the object, which enables the language control, and
  types \<open>en\<close>: both tags are set, and the submitted record carries \<open>d\<close> and \<open>l\<close>, in
  both revisions.
\<close>

theorem record_with_datatype_and_language:
  "objectDatatype scenario_html_en = ''rdf:HTML'' \<and> objectLanguage scenario_html_en = ''en''
   \<and> snd (handleSubmit ''2025-01-15T10:30:00.000Z'' scenario_html_en)
       = [Dispatch (Validation_changed True []),
          Dispatch (Quad_submitted
            (page_comment ''hello'' ''mntl:publ/scratch'' (Some ''rdf:HTML'') (Some ''en'')))]
   \<and> objectDatatype scenario_html_en_qf = ''rdf:HTML''
   \<and> objectLanguage scenario_html_en_qf = ''en''
   \<and> Dispatch (Quad_submitted
         (page_comment ''hello'' ''urn:mmm:mntl:publ/scratch'' (Some ''rdf:HTML'') (Some ''en'')))
       \<in> set (snd (handleSubmit_qf ''2025-01-15T10:30:00.000Z'' scenario_html_en_qf))"
  by code_simp

text \<open>
  Claim C8. In the nano regime a submission with an empty or whitespace-only object does
  nothing: the state is unchanged, no notification is emitted and the storage
  collaborator is not called.
\<close>

theorem handleSubmit_nano_blank_noop:
  assumes "dataMode st = ''nano''"
    and "object (fieldValues st) = [] \<or> trim (object (fieldValues st)) = []"
  shows "handleSubmit now st = (st, [])"
  using assms by (simp add: handleSubmit_def currentMode_def)

theorem handleSubmit_nano_blank_noop_witness:
  "dataMode scenario_nano_blank = ''nano''
   \<and> object (fieldValues scenario_nano_blank) = ''   ''
   \<and> trim (object (fieldValues scenario_nano_blank)) = []
   \<and> mmmServer' scenario_nano_blank = Some rejecting
   \<and> handleSubmit ''2025-01-15T10:30:00.000Z'' scenario_nano_blank = (scenario_nano_blank, [])"
proof -
  have h: "dataMode scenario_nano_blank = ''nano''"
      "object (fieldValues scenario_nano_blank) = ''   ''"
      "trim (object (fieldValues scenario_nano_blank)) = []"
    by code_simp+
  have "mmmServer' scenario_nano_blank = Some rejecting"
    by (simp add: scenario_nano_blank_def onFieldInput_def toggleNanoMode_def
        set_mmmServer_def constructor_def Let_def)
  with h handleSubmit_nano_blank_noop[of scenario_nano_blank "''2025-01-15T10:30:00.000Z''"]
  show ?thesis by simp
qed

lemma keeps_refl: "keeps st st"
  by (simp add: keeps_def)

lemma keeps_nanoDefaults: "keeps st (nanoDefaults st)"
  by (simp add: keeps_def nanoDefaults_def Let_def)

lemma keeps_tinyDefaults: "keeps st (tinyDefaults st)"
  by (simp add: keeps_def tinyDefaults_def Let_def)

lemma handleSubmit_rejected:
  assumes srv: "mmmServer' st = Some addQuad" and rej: "addQuad q = Rejected err"
    and call: "AddQuad q \<in> set (snd (handleSubmit now st))"
  shows "\<exists>pre. snd (handleSubmit now st) =
           pre @ [Dispatch (Quad_submitted q), AddQuad q, Console_error err, Dispatch (Quad_error err)]"
    and "keeps st (fst (handleSubmit now st))"
proof -
  have "(\<exists>pre. snd (handleSubmit now st) =
           pre @ [Dispatch (Quad_submitted q), AddQuad q, Console_error err, Dispatch (Quad_error err)])
         \<and> keeps st (fst (handleSubmit now st))"
  proof (cases st rule: mode_cases)
    case nano
    show ?thesis
    proof (cases "object (fieldValues st) = [] \<or> trim (object (fieldValues st)) = []")
      case True
      with nano call show ?thesis by (simp add: handleSubmit_def)
    next
      case False
      let ?st1 = "nanoDefaults st"
      from nano False have hs: "handleSubmit now st = (?st1, emitAndStore (buildQuad expandQName now ?st1) ?st1)"
        by (simp add: handleSubmit_def Let_def)
      with call have "q = buildQuad expandQName now ?st1" by (auto dest: emitAndStore_store)
      with hs srv rej have "snd (handleSubmit now st) = [] @ [Dispatch (Quad_submitted q), AddQuad q, Console_error err, Dispatch (Quad_error err)]"
        by (simp add: emitAndStore_rejected)
      with hs show ?thesis using keeps_nanoDefaults[of st] by (metis fst_conv)
    qed
  next
    case tiny
    let ?st1 = "tinyDefaults st"
    obtain valid fx where v: "validate ?st1 = (valid, fx)" by (cases "validate ?st1")
    show ?thesis
    proof (cases valid)
      case False
      with tiny v have "handleSubmit now st = (?st1, fx)" by (simp add: handleSubmit_def Let_def)
      with call v validate_no_store[of q ?st1] show ?thesis by simp
    next
      case True
      with tiny v have hs: "handleSubmit now st = (?st1, fx @ emitAndStore (buildQuad expandQName now ?st1) ?st1)" 
        by (simp add: handleSubmit_def Let_def)
      with call v validate_no_store[of q ?st1] have "q = buildQuad expandQName now ?st1"
        by (auto dest: emitAndStore_store)
      with hs srv rej have "snd (handleSubmit now st) = fx @ [Dispatch (Quad_submitted q), AddQuad q, Console_error err, Dispatch (Quad_error err)]"
        by (simp add: emitAndStore_rejected)
      with hs show ?thesis using keeps_tinyDefaults[of st] by (metis fst_conv)
    qed
  next
    case full
    obtain valid fx where v: "validate st = (valid, fx)" by (cases "validate st")
    show ?thesis
    proof (cases valid)
      case False
      with full v have "handleSubmit now st = (st, fx)" by (simp add: handleSubmit_def Let_def)
      with call v validate_no_store[of q st] show ?thesis by simp
    next
      case True
      with full v have hs: "handleSubmit now st = (st, fx @ emitAndStore (buildQuad expandQName now st) st)" 
        by (simp add: handleSubmit_def Let_def)
      with call v validate_no_store[of q st] have "q = buildQuad expandQName now st"
        by (auto dest: emitAndStore_store)
      with hs srv rej have "snd (handleSubmit now st) = fx @ [Dispatch (Quad_submitted q), AddQuad q, Console_error err, Dispatch (Quad_error err)]"
        by (simp add: emitAndStore_rejected)
      with hs show ?thesis using keeps_refl[of st] by (metis fst_conv)
    qed
  qed
  then show "\<exists>pre. snd (handleSubmit now st) =
           pre @ [Dispatch (Quad_submitted q), AddQuad q, Console_error err, Dispatch (Quad_error err)]"
    and "keeps st (fst (handleSubmit now st))" by blast+
qed

lemma handleSubmit_qf_rejected:
  assumes srv: "mmmServer' st = Some addQuad" and rej: "addQuad q = Rejected err"
    and call: "AddQuad q \<in> set (snd (handleSubmit_qf now st))"
  shows "\<exists>pre. snd (handleSubmit_qf now st) =
           pre @ [Dispatch (Quad_submitted q), AddQuad q, Console_error err, Dispatch (Quad_error err)]"
    and "fst (handleSubmit_qf now st) = st"
proof -
  obtain valid fx where v: "validate_qf st = (valid, fx)" by (cases "validate_qf st")
  let ?q = "buildQuad expandQName_qf now st"
  have "(\<exists>pre. snd (handleSubmit_qf now st) =
           pre @ [Dispatch (Quad_submitted q), AddQuad q, Console_error err, Dispatch (Quad_error err)])
     \<and> fst (handleSubmit_qf now st) = st"
  proof (cases valid)
    case False
    with v have "handleSubmit_qf now st = (st, fx)" by (simp add: handleSubmit_qf_def Let_def)
    with call v validate_qf_no_store[of q st] show ?thesis by simp
  next
    case True
    have nofx: "AddQuad q \<notin> set fx" using v validate_qf_no_store[of q st] by simp
    show ?thesis
    proof (cases "addQuad ?q")
      case Resolved
      with True v srv call nofx clear_qf_no_store[of q st] have "q = ?q"
        by (auto simp: handleSubmit_qf_def Let_def split: prod.splits if_splits)
      with Resolved rej show ?thesis by simp
    next
      case (Rejected e)
      with True v srv call nofx have "q = ?q"
        by (auto simp: handleSubmit_qf_def Let_def split: prod.splits if_splits)
      with Rejected rej have "e = err" by simp
      with Rejected True v srv \<open>q = ?q\<close> show ?thesis
        by (auto simp: handleSubmit_qf_def Let_def)
    qed
  qed
  then show "\<exists>pre. snd (handleSubmit_qf now st) =
           pre @ [Dispatch (Quad_submitted q), AddQuad q, Console_error err, Dispatch (Quad_error err)]"
    and "fst (handleSubmit_qf now st) = st" by blast+
qed

text \<open>
  Claim C9. When the storage collaborator is called with the record \<open>q\<close> and rejects with
  \<open>err\<close>, the effects of the submission end with the notification \<open>quad-submitted\<close> of
  \<open>q\<close>, the call, the log line and the notification \<open>quad-error\<close> of \<open>err\<close>, and nothing
  follows; the form is left populated (in src/quad-form.js the state is unchanged).
\<close>

theorem handleSubmit_storage_rejects:
  assumes "mmmServer' st = Some addQuad" and "addQuad q = Rejected err"
  shows "(AddQuad q \<in> set (snd (handleSubmit now st)) \<longrightarrow>
            (\<exists>pre. snd (handleSubmit now st) =
               pre @ [Dispatch (Quad_submitted q), AddQuad q, Console_error err,
                      Dispatch (Quad_error err)])
            \<and> keeps st (fst (handleSubmit now st)))
       \<and> (AddQuad q \<in> set (snd (handleSubmit_qf now st)) \<longrightarrow>
            (\<exists>pre. snd (handleSubmit_qf now st) =
               pre @ [Dispatch (Quad_submitted q), AddQuad q, Console_error err,
                      Dispatch (Quad_error err)])
            \<and> fst (handleSubmit_qf now st) = st)"
  using handleSubmit_rejected[OF assms] handleSubmit_qf_rejected[OF assms] by blast

theorem handleSubmit_storage_rejects_witness:
  "mmmServer' scenario_rejecting = Some rejecting
   \<and> rejecting (page_comment ''http://example.org/Bob'' ''mntl:publ/scratch'' None None)
       = Rejected ''storage offline''
   \<and> snd (handleSubmit ''2025-01-15T10:30:00.000Z'' scenario_rejecting)
       = [Dispatch (Validation_changed True []),
          Dispatch (Quad_submitted
            (page_comment ''http://example.org/Bob'' ''mntl:publ/scratch'' None None)),
          AddQuad (page_comment ''http://example.org/Bob'' ''mntl:publ/scratch'' None None),
          Console_error ''storage offline'',
          Dispatch (Quad_error ''storage offline'')]
   \<and> object (fieldValues (fst (handleSubmit ''2025-01-15T10:30:00.000Z'' scenario_rejecting)))
       = object (fieldValues scenario_rejecting)
   \<and> fieldValues (fst (handleSubmit ''2025-01-15T10:30:00.000Z'' scenario_rejecting))
       = \<lparr>subject = ''ex:Page'', predicate = ''rdfs:comment'', object = ''ex:Bob'',
          graph = ''mntl:publ/scratch''\<rparr>
   \<and> AddQuad (page_comment ''http://example.org/Bob'' ''urn:mmm:mntl:publ/scratch'' None None)
       \<in> set (snd (handleSubmit_qf ''2025-01-15T10:30:00.000Z'' scenario_rejecting))
   \<and> fst (handleSubmit_qf ''2025-01-15T10:30:00.000Z'' scenario_rejecting) = scenario_rejecting"
proof -
  have srv: "mmmServer' scenario_rejecting = Some rejecting"
    by (simp add: scenario_rejecting_def set_mmmServer_def)
  have rej: "rejecting q = Rejected ''storage offline''" for q
    by (simp add: rejecting_def)
  have fx: "snd (handleSubmit ''2025-01-15T10:30:00.000Z'' scenario_rejecting)
       = [Dispatch (Validation_changed True []),
          Dispatch (Quad_submitted
            (page_comment ''http://example.org/Bob'' ''mntl:publ/scratch'' None None)),
          AddQuad (page_comment ''http://example.org/Bob'' ''mntl:publ/scratch'' None None),
          Console_error ''storage offline'',
          Dispatch (Quad_error ''storage offline'')]"
    by code_simp
  have fv: "fieldValues (fst (handleSubmit ''2025-01-15T10:30:00.000Z'' scenario_rejecting))
       = \<lparr>subject = ''ex:Page'', predicate = ''rdfs:comment'', object = ''ex:Bob'',
          graph = ''mntl:publ/scratch''\<rparr>"
    by code_simp
  have fxq: "AddQuad (page_comment ''http://example.org/Bob'' ''urn:mmm:mntl:publ/scratch'' None None)
       \<in> set (snd (handleSubmit_qf ''2025-01-15T10:30:00.000Z'' scenario_rejecting))"
    by code_simp
  from fx have call: "AddQuad (page_comment ''http://example.org/Bob'' ''mntl:publ/scratch'' None None)
       \<in> set (snd (handleSubmit ''2025-01-15T10:30:00.000Z'' scenario_rejecting))"
    by simp
  from handleSubmit_storage_rejects[OF srv rej, of _ "''2025-01-15T10:30:00.000Z''"]
    srv rej fx fv fxq call
  show ?thesis unfolding keeps_def by blast
qed

section \<open>Clearing\<close>

text \<open>
  Claim C10. After \<open>clear()\<close>, in both revisions, \<open>getField\<close> gives the empty string for
  subject, predicate and object and the configured default graph for graph, the types
  are \<open>uri\<close>, \<open>qname\<close>, \<open>uri\<close> for subject, predicate and object, and the datatype tag and
  the language tag of the object are empty.
\<close>

theorem clear_resets:
  "getField (fst (clear st)) ''subject'' = []
   \<and> getField (fst (clear st)) ''predicate'' = []
   \<and> getField (fst (clear st)) ''object'' = []
   \<and> getField (fst (clear st)) ''graph'' = defaultGraph' st
   \<and> fieldTypes (fst (clear st))
       = \<lparr>subject = ''uri'', predicate = ''qname'', object = ''uri'', graph = ''qname''\<rparr>
   \<and> objectDatatype (fst (clear st)) = [] \<and> objectLanguage (fst (clear st)) = []
   \<and> getField (fst (clear_qf st)) ''subject'' = []
   \<and> getField (fst (clear_qf st)) ''predicate'' = []
   \<and> getField (fst (clear_qf st)) ''object'' = []
   \<and> getField (fst (clear_qf st)) ''graph'' = defaultGraph' st
   \<and> fieldTypes (fst (clear_qf st))
       = \<lparr>subject = ''uri'', predicate = ''qname'', object = ''uri'', graph = ''qname''\<rparr>
   \<and> objectDatatype (fst (clear_qf st)) = [] \<and> objectLanguage (fst (clear_qf st)) = []"
  by (simp add: clear_def clear_qf_def getField_def getF_def defaultTypes_def Let_def)

end
